theory Spec2Isabelle
  imports Complex_Main "HOL-Library.Word"
begin

unbundle bit_operations_syntax

section \<open>Time since boot: \<open>NetworkTime/uptime.c\<close>\<close>

text \<open>
  \<open>struct timeval\<close> as the platform declares it for the 64-bit targets of the library:
  \<open>tv_sec\<close> is a 64-bit signed integer, \<open>tv_usec\<close> a 32-bit signed integer. Both are
  kept as words and read with \<open>sint\<close>; subtraction wraps around as the machine's does.
\<close>

record timeval =
  tv_sec :: "64 word"
  tv_usec :: "32 word"

text \<open>
  The two system calls of \<open>uptime\<close> are its only inputs. One execution is described by
  what each call returns and what it stores through its pointer argument:
  \<open>gettimeofday(&now, NULL)\<close> gives the wall-clock reading, and
  \<open>sysctl({CTL_KERN, KERN_BOOTTIME}, ...)\<close> the boot time.
\<close>

record syscalls =
  gettimeofday_ret :: int
  gettimeofday_now :: timeval
  sysctl_ret :: int
  sysctl_boottime :: timeval

datatype abort = AssertionFailed

text \<open>
  \<open>int uptime(struct timeval *tv)\<close>. The pointer is \<open>None\<close> for \<open>NULL\<close> and
  \<open>Some v\<close> when it points to an object that holds \<open>v\<close> on entry. The result is the
  failed assertion, or the returned code together with the contents of \<open>*tv\<close> on return.
\<close>

definition uptime :: "syscalls \<Rightarrow> timeval option \<Rightarrow> abort + (int \<times> timeval)" where
  "uptime sys tvp =
     (case tvp of
        None \<Rightarrow> Inl AssertionFailed
      | Some tv \<Rightarrow>
          (let now = gettimeofday_now sys;
               ret = gettimeofday_ret sys
           in if ret \<noteq> 0 then Inr (ret, tv)
              else
                (let boottime = sysctl_boottime sys;
                     ret = sysctl_ret sys
                 in if ret = 0
                    then Inr (ret, tv\<lparr>tv_sec := tv_sec now - tv_sec boottime,
                                       tv_usec := tv_usec now - tv_usec boottime\<rparr>)
                    else Inr (ret, tv))))"

text \<open>
  A wall-clock adjustment that the kernel applies to the clock and to the recorded boot
  time alike: both readings move by the same amount in each component.
\<close>

definition shift_clock :: "64 word \<Rightarrow> 32 word \<Rightarrow> syscalls \<Rightarrow> syscalls" where
  "shift_clock ds du sys =
     sys\<lparr>gettimeofday_now :=
           \<lparr>tv_sec = tv_sec (gettimeofday_now sys) + ds,
            tv_usec = tv_usec (gettimeofday_now sys) + du\<rparr>,
         sysctl_boottime :=
           \<lparr>tv_sec = tv_sec (sysctl_boottime sys) + ds,
            tv_usec = tv_usec (sysctl_boottime sys) + du\<rparr>\<rparr>"

text \<open>A reading in canonical form has its microseconds within one second.\<close>

definition canonical :: "timeval \<Rightarrow> bool" where
  "canonical t \<longleftrightarrow> 0 \<le> sint (tv_usec t) \<and> sint (tv_usec t) < 1000000"

section \<open>NTP wire types: \<open>Sources/CTrueTime/ntp_types.h\<close>\<close>

text \<open>
  The three packed structs, each member at its declared width. The two timestamp
  structs share their member names, as in the header; the members of the shorter one
  are written \<open>ntp_time32_t.whole\<close> and \<open>ntp_time32_t.fraction\<close>.
\<close>

record ntp_time32_t =
  whole :: "16 word"
  fraction :: "16 word"

record ntp_time64_t =
  whole :: "32 word"
  fraction :: "32 word"

type_synonym ntp_time_t = ntp_time64_t

record ntp_packet_t =
  client_mode :: "3 word"
  version_number :: "3 word"
  leap_indicator :: "2 word"
  stratum :: "8 word"
  poll :: "8 word"
  precision :: "8 word"
  root_delay :: ntp_time32_t
  root_dispersion :: ntp_time32_t
  reference_id :: "8 word \<times> 8 word \<times> 8 word \<times> 8 word"
  reference_time :: ntp_time_t
  originate_time :: ntp_time_t
  receive_time :: ntp_time_t
  transmit_time :: ntp_time_t

subsection \<open>Layout of a packed struct\<close>

text \<open>
  A struct declared \<open>__attribute__((packed, aligned(1)))\<close> has no padding: its members
  follow one another in declaration order. A layout lists each member with its width in
  bits; a member's offset is the sum of the widths before it, and the size of the struct
  is the sum of all widths. Byte offsets and sizes are the bit counts divided by 8.
\<close>

type_synonym layout = "(string \<times> nat) list"

fun layout_bits :: "layout \<Rightarrow> nat" where
  "layout_bits [] = 0"
| "layout_bits ((m, w) # ms) = w + layout_bits ms"

fun bit_offset :: "layout \<Rightarrow> string \<Rightarrow> nat option" where
  "bit_offset [] f = None"
| "bit_offset ((m, w) # ms) f =
     (if m = f then Some 0 else map_option (\<lambda>b. w + b) (bit_offset ms f))"

definition sizeof :: "layout \<Rightarrow> nat" where
  "sizeof l = layout_bits l div 8"

definition offsetof :: "layout \<Rightarrow> string \<Rightarrow> nat option" where
  "offsetof l f = map_option (\<lambda>b. b div 8) (bit_offset l f)"

definition ntp_time32_layout :: layout where
  "ntp_time32_layout = [(''whole'', 16), (''fraction'', 16)]"

definition ntp_time64_layout :: layout where
  "ntp_time64_layout = [(''whole'', 32), (''fraction'', 32)]"

definition ntp_packet_layout :: layout where
  "ntp_packet_layout =
     [(''client_mode'', 3),
      (''version_number'', 3),
      (''leap_indicator'', 2),
      (''stratum'', 8),
      (''poll'', 8),
      (''precision'', 8),
      (''root_delay'', layout_bits ntp_time32_layout),
      (''root_dispersion'', layout_bits ntp_time32_layout),
      (''reference_id'', 4 * 8),
      (''reference_time'', layout_bits ntp_time64_layout),
      (''originate_time'', layout_bits ntp_time64_layout),
      (''receive_time'', layout_bits ntp_time64_layout),
      (''transmit_time'', layout_bits ntp_time64_layout)]"

subsection \<open>The bytes of a packet\<close>

text \<open>
  The bytes a struct value occupies, in address order. The three bit-fields share the
  first byte, the first declared in the lowest bits (the allocation order of the
  compilers the library is built with). The order of the bytes of a 16-bit or 32-bit
  member is not fixed by the header and is a parameter.
\<close>

datatype byte_order = LittleEndian | BigEndian

definition u16_bytes :: "byte_order \<Rightarrow> 16 word \<Rightarrow> 8 word list" where
  "u16_bytes bo w =
     (case bo of
        BigEndian \<Rightarrow> [ucast (drop_bit 8 w), ucast w]
      | LittleEndian \<Rightarrow> [ucast w, ucast (drop_bit 8 w)])"

definition u32_bytes :: "byte_order \<Rightarrow> 32 word \<Rightarrow> 8 word list" where
  "u32_bytes bo w =
     (case bo of
        BigEndian \<Rightarrow>
          [ucast (drop_bit 24 w), ucast (drop_bit 16 w), ucast (drop_bit 8 w), ucast w]
      | LittleEndian \<Rightarrow>
          [ucast w, ucast (drop_bit 8 w), ucast (drop_bit 16 w), ucast (drop_bit 24 w)])"

definition time32_bytes :: "byte_order \<Rightarrow> ntp_time32_t \<Rightarrow> 8 word list" where
  "time32_bytes bo t =
     u16_bytes bo (ntp_time32_t.whole t) @ u16_bytes bo (ntp_time32_t.fraction t)"

definition time64_bytes :: "byte_order \<Rightarrow> ntp_time64_t \<Rightarrow> 8 word list" where
  "time64_bytes bo t = u32_bytes bo (whole t) @ u32_bytes bo (fraction t)"

definition header_byte :: "ntp_packet_t \<Rightarrow> 8 word" where
  "header_byte p =
     ucast (client_mode p) OR push_bit 3 (ucast (version_number p))
       OR push_bit 6 (ucast (leap_indicator p))"

definition reference_id_bytes :: "8 word \<times> 8 word \<times> 8 word \<times> 8 word \<Rightarrow> 8 word list" where
  "reference_id_bytes r = (case r of (a, b, c, d) \<Rightarrow> [a, b, c, d])"

definition packet_bytes :: "byte_order \<Rightarrow> ntp_packet_t \<Rightarrow> 8 word list" where
  "packet_bytes bo p =
     [header_byte p, stratum p, poll p, precision p]
       @ time32_bytes bo (root_delay p)
       @ time32_bytes bo (root_dispersion p)
       @ reference_id_bytes (reference_id p)
       @ time64_bytes bo (reference_time p)
       @ time64_bytes bo (originate_time p)
       @ time64_bytes bo (receive_time p)
       @ time64_bytes bo (transmit_time p)"

text \<open>The bytes of a datagram from offset \<open>off\<close>, \<open>n\<close> of them.\<close>

definition bytes_at :: "nat \<Rightarrow> nat \<Rightarrow> 8 word list \<Rightarrow> 8 word list" where
  "bytes_at off n bs = take n (drop off bs)"

section \<open>The synchronisation engine described by the specification\<close>

text \<open>The error taxonomy of the engine.\<close>

datatype sync_error = DecodeError | Timeout | InsufficientSamples | NoAnchor | ClockAnomaly

subsection \<open>Timestamps as seconds\<close>

text \<open>
  Modelled from the spec: the conversion of a \<open>ntp_time64_t\<close> to seconds is not among
  the sources. A timestamp is whole seconds plus a fraction of \<open>2^-32\<close> resolution,
  both read as unsigned integers.
\<close>

definition fraction_seconds :: "ntp_time64_t \<Rightarrow> rat" where
  "fraction_seconds t = of_nat (unat (fraction t)) / 2 ^ 32"

definition seconds :: "ntp_time64_t \<Rightarrow> rat" where
  "seconds t = of_nat (unat (whole t)) + fraction_seconds t"

subsection \<open>PacketCodec\<close>

text \<open>
  Modelled from the spec: the encoder and decoder of packets are not among the sources.
  A packet is 48 bytes with the members of \<open>ntp_packet_t\<close> in order and every
  multi-byte member big-endian; the decoder checks the length and reads the members
  back from their offsets.
\<close>

definition encode :: "ntp_packet_t \<Rightarrow> 8 word list" where
  "encode p = packet_bytes BigEndian p"

definition u16_at :: "8 word list \<Rightarrow> nat \<Rightarrow> 16 word" where
  "u16_at bs i = push_bit 8 (ucast (bs ! i)) OR ucast (bs ! (i + 1))"

definition u32_at :: "8 word list \<Rightarrow> nat \<Rightarrow> 32 word" where
  "u32_at bs i =
     push_bit 24 (ucast (bs ! i)) OR push_bit 16 (ucast (bs ! (i + 1)))
       OR push_bit 8 (ucast (bs ! (i + 2))) OR ucast (bs ! (i + 3))"

definition time32_at :: "8 word list \<Rightarrow> nat \<Rightarrow> ntp_time32_t" where
  "time32_at bs i = \<lparr>ntp_time32_t.whole = u16_at bs i, fraction = u16_at bs (i + 2)\<rparr>"

definition time64_at :: "8 word list \<Rightarrow> nat \<Rightarrow> ntp_time64_t" where
  "time64_at bs i = \<lparr>whole = u32_at bs i, fraction = u32_at bs (i + 4)\<rparr>"

definition decode :: "8 word list \<Rightarrow> sync_error + ntp_packet_t" where
  "decode bs =
     (if length bs \<noteq> 48 then Inl DecodeError
      else Inr \<lparr>client_mode = ucast (bs ! 0),
                version_number = ucast (drop_bit 3 (bs ! 0)),
                leap_indicator = ucast (drop_bit 6 (bs ! 0)),
                stratum = bs ! 1,
                poll = bs ! 2,
                precision = bs ! 3,
                root_delay = time32_at bs 4,
                root_dispersion = time32_at bs 8,
                reference_id = (bs ! 12, bs ! 13, bs ! 14, bs ! 15),
                reference_time = time64_at bs 16,
                originate_time = time64_at bs 24,
                receive_time = time64_at bs 32,
                transmit_time = time64_at bs 40\<rparr>)"

text \<open>
  Modelled from the spec: the validation of a response is not among the sources. The
  leap indicator of an unsynchronised server is 3 and the mode of a server response is
  4, the values of the protocol. A response is rejected when its length is not 48, when
  its leap indicator is the alarm value, when its stratum is zero unless that has been
  explicitly permitted, and when its mode is not the server's.
\<close>

definition leap_alarm :: "2 word" where
  "leap_alarm = 3"

definition mode_server :: "3 word" where
  "mode_server = 4"

definition decodeResponse :: "bool \<Rightarrow> 8 word list \<Rightarrow> sync_error + ntp_packet_t" where
  "decodeResponse permit_zero_stratum bs =
     (case decode bs of
        Inl e \<Rightarrow> Inl e
      | Inr p \<Rightarrow>
          if leap_indicator p = leap_alarm then Inl DecodeError
          else if stratum p = 0 \<and> \<not> permit_zero_stratum then Inl DecodeError
          else if client_mode p \<noteq> mode_server then Inl DecodeError
          else Inr p)"

subsection \<open>RoundTripEstimator\<close>

text \<open>
  Modelled from the spec: the estimator is not among the sources. Times are exact
  rationals in seconds; \<open>t1\<close> is the client's send time, \<open>t2\<close> the server's receive
  time, \<open>t3\<close> the server's transmit time and \<open>t4\<close> the client's receive time. A sample
  is rejected when \<open>t4 < t1\<close> and when the round-trip delay is negative.
\<close>

definition offset :: "rat \<Rightarrow> rat \<Rightarrow> rat \<Rightarrow> rat \<Rightarrow> rat" where
  "offset t1 t2 t3 t4 = ((t2 - t1) + (t3 - t4)) / 2"

definition roundTripDelay :: "rat \<Rightarrow> rat \<Rightarrow> rat \<Rightarrow> rat \<Rightarrow> rat" where
  "roundTripDelay t1 t2 t3 t4 = (t4 - t1) - (t3 - t2)"

definition estimate :: "rat \<Rightarrow> rat \<Rightarrow> rat \<Rightarrow> rat \<Rightarrow> sync_error + (rat \<times> rat)" where
  "estimate t1 t2 t3 t4 =
     (if t4 < t1 then Inl ClockAnomaly
      else if roundTripDelay t1 t2 t3 t4 < 0 then Inl ClockAnomaly
      else Inr (offset t1 t2 t3 t4, roundTripDelay t1 t2 t3 t4))"

text \<open>
  Modelled from the spec: one exchange, from the received datagram to the estimate. The
  datagram is decoded first and only a decoded response is given to the estimator, with
  the packet's receive and transmit timestamps as \<open>t2\<close> and \<open>t3\<close>.
\<close>

definition exchange :: "bool \<Rightarrow> rat \<Rightarrow> rat \<Rightarrow> 8 word list \<Rightarrow> sync_error + (rat \<times> rat)" where
  "exchange permit_zero_stratum t1 t4 bs =
     (case decodeResponse permit_zero_stratum bs of
        Inl e \<Rightarrow> Inl e
      | Inr p \<Rightarrow> estimate t1 (seconds (receive_time p)) (seconds (transmit_time p)) t4)"

subsection \<open>ServerPoller: selection of the round's sample\<close>

text \<open>
  Modelled from the spec: the poller is not among the sources. A round has collected the
  samples of the endpoints that answered. Samples whose dispersion is above the ceiling
  are discarded; when fewer than the minimum-accept count remain the round fails with
  \<open>InsufficientSamples\<close>; otherwise the winner is the sample of lowest stratum, then
  lowest dispersion, then lowest round-trip delay.
\<close>

record sample =
  sample_offset :: rat
  sample_delay :: rat
  dispersion :: rat
  serverStratum :: nat
  capturedAtMonotonic :: rat

record round_config =
  dispersion_ceiling :: rat
  minimum_accept :: nat

definition preferred :: "sample \<Rightarrow> sample \<Rightarrow> bool" where
  "preferred a b \<longleftrightarrow>
     serverStratum a < serverStratum b \<or>
     (serverStratum a = serverStratum b \<and>
        (dispersion a < dispersion b \<or>
         (dispersion a = dispersion b \<and> sample_delay a < sample_delay b)))"

definition better :: "sample \<Rightarrow> sample \<Rightarrow> sample" where
  "better a b = (if preferred b a then b else a)"

definition valid_samples :: "round_config \<Rightarrow> sample list \<Rightarrow> sample list" where
  "valid_samples cfg ss = filter (\<lambda>s. \<not> dispersion_ceiling cfg < dispersion s) ss"

definition select :: "round_config \<Rightarrow> sample list \<Rightarrow> sync_error + sample" where
  "select cfg ss =
     (let vs = valid_samples cfg ss
      in if length vs < minimum_accept cfg then Inl InsufficientSamples
         else (case vs of
                 [] \<Rightarrow> Inl InsufficientSamples
               | v # rest \<Rightarrow> Inr (foldl better v rest)))"

subsection \<open>UptimeAnchor and SyncCoordinator\<close>

text \<open>
  Modelled from the spec: anchor and coordinator are not among the sources. The anchor
  is the pair of corrected wall time and monotonic reading at capture; a query projects
  it to the monotonic reading of the query and fails with \<open>NoAnchor\<close> when nothing
  was captured. The coordinator holds its state and the current anchor. \<open>start\<close> moves
  it to \<open>Syncing\<close>; the outcome of the round moves it from \<open>Syncing\<close> to \<open>Synced\<close>
  with a newly captured anchor, or to \<open>Failed\<close> with the reason of the failure.
\<close>

record anchor =
  correctedWallTime :: rat
  monotonicAtCapture :: rat

datatype sync_state = Uninitialized | Syncing | Synced | Failed sync_error

record coordinator =
  state :: sync_state
  current_anchor :: "anchor option"

definition capture :: "rat \<Rightarrow> rat \<Rightarrow> anchor" where
  "capture corrected monotonicNow =
     \<lparr>correctedWallTime = corrected, monotonicAtCapture = monotonicNow\<rparr>"

definition anchor_now :: "anchor option \<Rightarrow> rat \<Rightarrow> sync_error + rat" where
  "anchor_now a monotonicNow =
     (case a of
        None \<Rightarrow> Inl NoAnchor
      | Some x \<Rightarrow> Inr (correctedWallTime x + (monotonicNow - monotonicAtCapture x)))"

definition currentTime :: "coordinator \<Rightarrow> rat \<Rightarrow> sync_error + rat" where
  "currentTime c monotonicNow = anchor_now (current_anchor c) monotonicNow"

definition isSynced :: "coordinator \<Rightarrow> bool" where
  "isSynced c \<longleftrightarrow> state c = Synced"

definition initial :: coordinator where
  "initial = \<lparr>state = Uninitialized, current_anchor = None\<rparr>"

definition start :: "coordinator \<Rightarrow> coordinator" where
  "start c = c\<lparr>state := Syncing\<rparr>"

text \<open>
  The end of a round, at wall-clock reading \<open>wallNow\<close> and monotonic reading
  \<open>monotonicNow\<close>. The corrected wall time of a winning sample is the device's wall
  clock plus the sample's offset.
\<close>

definition finish_round ::
  "rat \<Rightarrow> rat \<Rightarrow> sync_error + sample \<Rightarrow> coordinator \<Rightarrow> coordinator" where
  "finish_round wallNow monotonicNow outcome c =
     (if state c \<noteq> Syncing then c
      else (case outcome of
              Inr s \<Rightarrow>
                \<lparr>state = Synced,
                 current_anchor = Some (capture (wallNow + sample_offset s) monotonicNow)\<rparr>
            | Inl e \<Rightarrow> c\<lparr>state := Failed e\<rparr>))"

definition forceSync ::
  "round_config \<Rightarrow> sample list \<Rightarrow> rat \<Rightarrow> rat \<Rightarrow> coordinator \<Rightarrow> coordinator" where
  "forceSync cfg ss wallNow monotonicNow c =
     finish_round wallNow monotonicNow (select cfg ss) (start c)"

section \<open>Properties of \<open>uptime\<close>\<close>

lemma uptime_Some:
  "uptime sys (Some tv) =
     (if gettimeofday_ret sys \<noteq> 0 then Inr (gettimeofday_ret sys, tv)
      else if sysctl_ret sys = 0
      then Inr (0, \<lparr>tv_sec = tv_sec (gettimeofday_now sys) - tv_sec (sysctl_boottime sys),
                    tv_usec = tv_usec (gettimeofday_now sys) - tv_usec (sysctl_boottime sys)\<rparr>)
      else Inr (sysctl_ret sys, tv))"
  by (simp add: uptime_def Let_def)

lemma uptime_NULL: "uptime sys None = Inl AssertionFailed"
  by (simp add: uptime_def)

text \<open>
  Claim C9. \<open>uptime\<close> stores through \<open>tv\<close> exactly when it returns 0. When
  \<open>gettimeofday\<close> fails its nonzero code is returned and \<open>*tv\<close> keeps its contents;
  when \<open>sysctl\<close> fails its nonzero code is returned and \<open>*tv\<close> keeps its contents;
  when both succeed 0 is returned and \<open>*tv\<close> holds the componentwise difference
  \<open>now - boottime\<close>. Whatever is returned, a nonzero code comes with \<open>*tv\<close> unchanged
  and the code 0 with the difference stored.
\<close>

theorem uptime_writes_iff_zero:
  "(gettimeofday_ret sys \<noteq> 0 \<longrightarrow>
      uptime sys (Some tv) = Inr (gettimeofday_ret sys, tv)) \<and>
   (gettimeofday_ret sys = 0 \<and> sysctl_ret sys \<noteq> 0 \<longrightarrow>
      uptime sys (Some tv) = Inr (sysctl_ret sys, tv)) \<and>
   (gettimeofday_ret sys = 0 \<and> sysctl_ret sys = 0 \<longrightarrow>
      uptime sys (Some tv) =
        Inr (0, \<lparr>tv_sec = tv_sec (gettimeofday_now sys) - tv_sec (sysctl_boottime sys),
                 tv_usec = tv_usec (gettimeofday_now sys) - tv_usec (sysctl_boottime sys)\<rparr>)) \<and>
   (\<forall>ret tv'. uptime sys (Some tv) = Inr (ret, tv') \<longrightarrow>
      (ret \<noteq> 0 \<longrightarrow> tv' = tv) \<and>
      (ret = 0 \<longrightarrow>
         tv' = \<lparr>tv_sec = tv_sec (gettimeofday_now sys) - tv_sec (sysctl_boottime sys),
                tv_usec = tv_usec (gettimeofday_now sys) - tv_usec (sysctl_boottime sys)\<rparr>))"
  by (simp add: uptime_Some)

theorem uptime_writes_iff_zero_witness:
  "uptime \<lparr>gettimeofday_ret = -1, gettimeofday_now = \<lparr>tv_sec = 0, tv_usec = 0\<rparr>,
           sysctl_ret = 0, sysctl_boottime = \<lparr>tv_sec = 40, tv_usec = 7\<rparr>\<rparr>
          (Some \<lparr>tv_sec = 11, tv_usec = 12\<rparr>) = Inr (-1, \<lparr>tv_sec = 11, tv_usec = 12\<rparr>) \<and>
   uptime \<lparr>gettimeofday_ret = 0, gettimeofday_now = \<lparr>tv_sec = 100, tv_usec = 9\<rparr>,
           sysctl_ret = 22, sysctl_boottime = \<lparr>tv_sec = 40, tv_usec = 7\<rparr>\<rparr>
          (Some \<lparr>tv_sec = 11, tv_usec = 12\<rparr>) = Inr (22, \<lparr>tv_sec = 11, tv_usec = 12\<rparr>) \<and>
   uptime \<lparr>gettimeofday_ret = 0, gettimeofday_now = \<lparr>tv_sec = 100, tv_usec = 9\<rparr>,
           sysctl_ret = 0, sysctl_boottime = \<lparr>tv_sec = 40, tv_usec = 7\<rparr>\<rparr>
          (Some \<lparr>tv_sec = 11, tv_usec = 12\<rparr>) = Inr (0, \<lparr>tv_sec = 60, tv_usec = 2\<rparr>)"
proof (intro conjI)
  show "uptime \<lparr>gettimeofday_ret = -1, gettimeofday_now = \<lparr>tv_sec = 0, tv_usec = 0\<rparr>,
           sysctl_ret = 0, sysctl_boottime = \<lparr>tv_sec = 40, tv_usec = 7\<rparr>\<rparr>
          (Some \<lparr>tv_sec = 11, tv_usec = 12\<rparr>) = Inr (-1, \<lparr>tv_sec = 11, tv_usec = 12\<rparr>)"
    using uptime_writes_iff_zero
      [of "\<lparr>gettimeofday_ret = -1, gettimeofday_now = \<lparr>tv_sec = 0, tv_usec = 0\<rparr>,
            sysctl_ret = 0, sysctl_boottime = \<lparr>tv_sec = 40, tv_usec = 7\<rparr>\<rparr>"
          "\<lparr>tv_sec = 11, tv_usec = 12\<rparr>", THEN conjunct1]
    by simp
  show "uptime \<lparr>gettimeofday_ret = 0, gettimeofday_now = \<lparr>tv_sec = 100, tv_usec = 9\<rparr>,
           sysctl_ret = 22, sysctl_boottime = \<lparr>tv_sec = 40, tv_usec = 7\<rparr>\<rparr>
          (Some \<lparr>tv_sec = 11, tv_usec = 12\<rparr>) = Inr (22, \<lparr>tv_sec = 11, tv_usec = 12\<rparr>)"
    using uptime_writes_iff_zero
      [of "\<lparr>gettimeofday_ret = 0, gettimeofday_now = \<lparr>tv_sec = 100, tv_usec = 9\<rparr>,
            sysctl_ret = 22, sysctl_boottime = \<lparr>tv_sec = 40, tv_usec = 7\<rparr>\<rparr>"
          "\<lparr>tv_sec = 11, tv_usec = 12\<rparr>", THEN conjunct2, THEN conjunct1]
    by simp
  show "uptime \<lparr>gettimeofday_ret = 0, gettimeofday_now = \<lparr>tv_sec = 100, tv_usec = 9\<rparr>,
           sysctl_ret = 0, sysctl_boottime = \<lparr>tv_sec = 40, tv_usec = 7\<rparr>\<rparr>
          (Some \<lparr>tv_sec = 11, tv_usec = 12\<rparr>) = Inr (0, \<lparr>tv_sec = 60, tv_usec = 2\<rparr>)"
    using uptime_writes_iff_zero
      [of "\<lparr>gettimeofday_ret = 0, gettimeofday_now = \<lparr>tv_sec = 100, tv_usec = 9\<rparr>,
            sysctl_ret = 0, sysctl_boottime = \<lparr>tv_sec = 40, tv_usec = 7\<rparr>\<rparr>"
          "\<lparr>tv_sec = 11, tv_usec = 12\<rparr>", THEN conjunct2, THEN conjunct2, THEN conjunct1]
    by simp
qed

lemma sint_usec_diff:
  fixes a b :: "32 word"
  assumes "0 \<le> sint a" "sint a < 1000000" "0 \<le> sint b" "sint b < 1000000"
  shows "sint (a - b) = sint a - sint b"
proof -
  have "- (2 ^ 31) \<le> sint a - sint b" "sint a - sint b < 2 ^ 31"
    using assms by simp_all
  then have "signed_take_bit 31 (sint a - sint b) = sint a - sint b"
    by (simp add: signed_take_bit_int_eq_self)
  then show ?thesis
    by (simp add: sint_word_ariths)
qed

text \<open>
  Claim C10. \<open>uptime\<close> does not bring its result into canonical form. Whenever both
  calls succeed on canonical readings and the current reading's \<open>tv_usec\<close> is smaller
  than the boot time's, the stored \<open>tv_usec\<close> is the plain difference, a negative
  number, and the stored \<open>tv_sec\<close> is the plain difference of the seconds: no borrow
  is taken from it. The witness gives such an input.
\<close>

theorem uptime_usec_negative:
  assumes "gettimeofday_ret sys = 0" and "sysctl_ret sys = 0"
    and "canonical (gettimeofday_now sys)" and "canonical (sysctl_boottime sys)"
    and "sint (tv_usec (gettimeofday_now sys)) < sint (tv_usec (sysctl_boottime sys))"
  shows "\<exists>tv'. uptime sys (Some tv) = Inr (0, tv') \<and>
           sint (tv_usec tv') =
             sint (tv_usec (gettimeofday_now sys)) - sint (tv_usec (sysctl_boottime sys)) \<and>
           sint (tv_usec tv') < 0 \<and>
           tv_sec tv' = tv_sec (gettimeofday_now sys) - tv_sec (sysctl_boottime sys)"
  using assms by (simp add: uptime_Some canonical_def sint_usec_diff)

theorem uptime_usec_negative_witness:
  "\<exists>tv'. uptime \<lparr>gettimeofday_ret = 0, gettimeofday_now = \<lparr>tv_sec = 100, tv_usec = 200000\<rparr>,
                  sysctl_ret = 0, sysctl_boottime = \<lparr>tv_sec = 40, tv_usec = 900000\<rparr>\<rparr>
                 (Some \<lparr>tv_sec = 0, tv_usec = 0\<rparr>) = Inr (0, tv') \<and>
      sint (tv_usec tv') = - 700000 \<and> sint (tv_usec tv') < 0 \<and> tv_sec tv' = 60"
  using uptime_usec_negative
    [of "\<lparr>gettimeofday_ret = 0, gettimeofday_now = \<lparr>tv_sec = 100, tv_usec = 200000\<rparr>,
          sysctl_ret = 0, sysctl_boottime = \<lparr>tv_sec = 40, tv_usec = 900000\<rparr>\<rparr>"
        "\<lparr>tv_sec = 0, tv_usec = 0\<rparr>"]
  by (simp add: canonical_def)

text \<open>
  Claim C2, as the code has it. The value \<open>uptime\<close> returns is a difference of the
  wall-clock reading and the reported boot time, so it is unchanged by an adjustment
  that moves both readings by the same amount in each component, whatever the return
  codes are and wherever \<open>tv\<close> points.
\<close>

theorem uptime_shift_invariant:
  "uptime (shift_clock ds du sys) tvp = uptime sys tvp"
  by (simp add: uptime_def shift_clock_def Let_def split: option.split)

text \<open>
  With the boot time held equal, two executions that differ only in the wall-clock
  reading store different values: one hour more on the wall clock is one hour more in
  the result.
\<close>

theorem uptime_wall_clock_counterexample:
  "uptime \<lparr>gettimeofday_ret = 0, gettimeofday_now = \<lparr>tv_sec = 100, tv_usec = 0\<rparr>,
           sysctl_ret = 0, sysctl_boottime = \<lparr>tv_sec = 40, tv_usec = 0\<rparr>\<rparr>
          (Some \<lparr>tv_sec = 0, tv_usec = 0\<rparr>) = Inr (0, \<lparr>tv_sec = 60, tv_usec = 0\<rparr>) \<and>
   uptime \<lparr>gettimeofday_ret = 0, gettimeofday_now = \<lparr>tv_sec = 3700, tv_usec = 0\<rparr>,
           sysctl_ret = 0, sysctl_boottime = \<lparr>tv_sec = 40, tv_usec = 0\<rparr>\<rparr>
          (Some \<lparr>tv_sec = 0, tv_usec = 0\<rparr>) = Inr (0, \<lparr>tv_sec = 3660, tv_usec = 0\<rparr>) \<and>
   uptime \<lparr>gettimeofday_ret = 0, gettimeofday_now = \<lparr>tv_sec = 100, tv_usec = 0\<rparr>,
           sysctl_ret = 0, sysctl_boottime = \<lparr>tv_sec = 40, tv_usec = 0\<rparr>\<rparr>
          (Some \<lparr>tv_sec = 0, tv_usec = 0\<rparr>) \<noteq>
   uptime \<lparr>gettimeofday_ret = 0, gettimeofday_now = \<lparr>tv_sec = 3700, tv_usec = 0\<rparr>,
           sysctl_ret = 0, sysctl_boottime = \<lparr>tv_sec = 40, tv_usec = 0\<rparr>\<rparr>
          (Some \<lparr>tv_sec = 0, tv_usec = 0\<rparr>)"
  by (simp add: uptime_Some)

section \<open>Properties of the packet layout and the codec\<close>

lemma u16_join_split:
  "push_bit 8 (ucast (ucast (drop_bit 8 w) :: 8 word)) OR ucast (ucast w :: 8 word) = (w :: 16 word)"
  by (rule bit_word_eqI) (auto simp: bit_simps)

lemma u32_join_split:
  "push_bit 24 (ucast (ucast (drop_bit 24 w) :: 8 word))
     OR push_bit 16 (ucast (ucast (drop_bit 16 w) :: 8 word))
     OR push_bit 8 (ucast (ucast (drop_bit 8 w) :: 8 word))
     OR ucast (ucast w :: 8 word) = (w :: 32 word)"
proof (rule bit_word_eqI)
  fix n :: nat
  assume "n < LENGTH(32)"
  then have n: "n < 32" by simp
  consider "n < 8" | "8 \<le> n" "n < 16" | "16 \<le> n" "n < 24" | "24 \<le> n"
    by linarith
  then show "bit (push_bit 24 (ucast (ucast (drop_bit 24 w) :: 8 word))
     OR push_bit 16 (ucast (ucast (drop_bit 16 w) :: 8 word))
     OR push_bit 8 (ucast (ucast (drop_bit 8 w) :: 8 word))
     OR ucast (ucast w :: 8 word) :: 32 word) n = bit w n"
    using n by cases (auto simp: bit_simps)
qed

lemma header_mode: "ucast (header_byte p) = client_mode p"
  unfolding header_byte_def
  by (rule bit_word_eqI) (auto simp: bit_simps dest: bit_imp_le_length)

lemma header_version: "ucast (drop_bit 3 (header_byte p)) = version_number p"
  unfolding header_byte_def
  by (rule bit_word_eqI) (auto simp: bit_simps dest: bit_imp_le_length)

lemma header_leap: "ucast (drop_bit 6 (header_byte p)) = leap_indicator p"
  unfolding header_byte_def
  by (rule bit_word_eqI) (auto simp: bit_simps dest: bit_imp_le_length)


lemma length_u16_bytes [simp]: "length (u16_bytes bo w) = 2"
  by (cases bo) (simp_all add: u16_bytes_def)

lemma length_u32_bytes [simp]: "length (u32_bytes bo w) = 4"
  by (cases bo) (simp_all add: u32_bytes_def)

lemma length_time32_bytes [simp]: "length (time32_bytes bo t) = 4"
  by (simp add: time32_bytes_def)

lemma length_time64_bytes [simp]: "length (time64_bytes bo t) = 8"
  by (simp add: time64_bytes_def)

lemma length_reference_id_bytes [simp]: "length (reference_id_bytes r) = 4"
  by (cases r) (simp add: reference_id_bytes_def)

lemma length_packet_bytes: "length (packet_bytes bo p) = 48"
  by (simp add: packet_bytes_def)

lemma u16_at_append:
  "length pre = i \<Longrightarrow> u16_at (pre @ u16_bytes BigEndian w @ post) i = w"
  by (simp add: u16_at_def u16_bytes_def nth_append u16_join_split)

lemma u32_at_append:
  "length pre = i \<Longrightarrow> u32_at (pre @ u32_bytes BigEndian w @ post) i = w"
  by (simp add: u32_at_def u32_bytes_def nth_append u32_join_split)

lemma time32_at_append:
  "length pre = i \<Longrightarrow> time32_at (pre @ time32_bytes BigEndian t @ post) i = t"
  using u16_at_append [of pre i "ntp_time32_t.whole t" "u16_bytes BigEndian (ntp_time32_t.fraction t) @ post"]
    u16_at_append [of "pre @ u16_bytes BigEndian (ntp_time32_t.whole t)" "i + 2" "ntp_time32_t.fraction t" post]
  by (simp add: time32_at_def time32_bytes_def)

lemma time64_at_append:
  "length pre = i \<Longrightarrow> time64_at (pre @ time64_bytes BigEndian t @ post) i = t"
  using u32_at_append [of pre i "whole t" "u32_bytes BigEndian (fraction t) @ post"]
    u32_at_append [of "pre @ u32_bytes BigEndian (whole t)" "i + 4" "fraction t" post]
  by (simp add: time64_at_def time64_bytes_def)

lemma encode_header:
  "encode p ! 0 = header_byte p" "encode p ! Suc 0 = stratum p"
  "encode p ! 2 = poll p" "encode p ! 3 = precision p"
  by (simp_all add: encode_def packet_bytes_def)

lemma encode_reference_id:
  "(encode p ! 12, encode p ! 13, encode p ! 14, encode p ! 15) = reference_id p"
  by (cases "reference_id p")
    (simp add: encode_def packet_bytes_def nth_append reference_id_bytes_def)

lemma encode_root_delay: "time32_at (encode p) 4 = root_delay p"
  using time32_at_append
    [of "[header_byte p, stratum p, poll p, precision p]" 4 "root_delay p"
        "time32_bytes BigEndian (root_dispersion p) @ reference_id_bytes (reference_id p)
           @ time64_bytes BigEndian (reference_time p) @ time64_bytes BigEndian (originate_time p)
           @ time64_bytes BigEndian (receive_time p) @ time64_bytes BigEndian (transmit_time p)"]
  by (simp add: encode_def packet_bytes_def)

lemma encode_root_dispersion: "time32_at (encode p) 8 = root_dispersion p"
  using time32_at_append
    [of "[header_byte p, stratum p, poll p, precision p] @ time32_bytes BigEndian (root_delay p)"
        8 "root_dispersion p"
        "reference_id_bytes (reference_id p)
           @ time64_bytes BigEndian (reference_time p) @ time64_bytes BigEndian (originate_time p)
           @ time64_bytes BigEndian (receive_time p) @ time64_bytes BigEndian (transmit_time p)"]
  by (simp add: encode_def packet_bytes_def)

lemma encode_reference_time: "time64_at (encode p) 16 = reference_time p"
  using time64_at_append
    [of "[header_byte p, stratum p, poll p, precision p] @ time32_bytes BigEndian (root_delay p)
           @ time32_bytes BigEndian (root_dispersion p) @ reference_id_bytes (reference_id p)"
        16 "reference_time p"
        "time64_bytes BigEndian (originate_time p)
           @ time64_bytes BigEndian (receive_time p) @ time64_bytes BigEndian (transmit_time p)"]
  by (simp add: encode_def packet_bytes_def)

lemma encode_originate_time: "time64_at (encode p) 24 = originate_time p"
  using time64_at_append
    [of "[header_byte p, stratum p, poll p, precision p] @ time32_bytes BigEndian (root_delay p)
           @ time32_bytes BigEndian (root_dispersion p) @ reference_id_bytes (reference_id p)
           @ time64_bytes BigEndian (reference_time p)"
        24 "originate_time p"
        "time64_bytes BigEndian (receive_time p) @ time64_bytes BigEndian (transmit_time p)"]
  by (simp add: encode_def packet_bytes_def)

lemma encode_receive_time: "time64_at (encode p) 32 = receive_time p"
  using time64_at_append
    [of "[header_byte p, stratum p, poll p, precision p] @ time32_bytes BigEndian (root_delay p)
           @ time32_bytes BigEndian (root_dispersion p) @ reference_id_bytes (reference_id p)
           @ time64_bytes BigEndian (reference_time p) @ time64_bytes BigEndian (originate_time p)"
        32 "receive_time p"
        "time64_bytes BigEndian (transmit_time p)"]
  by (simp add: encode_def packet_bytes_def)

lemma encode_transmit_time: "time64_at (encode p) 40 = transmit_time p"
  using time64_at_append
    [of "[header_byte p, stratum p, poll p, precision p] @ time32_bytes BigEndian (root_delay p)
           @ time32_bytes BigEndian (root_dispersion p) @ reference_id_bytes (reference_id p)
           @ time64_bytes BigEndian (reference_time p) @ time64_bytes BigEndian (originate_time p)
           @ time64_bytes BigEndian (receive_time p)"
        40 "transmit_time p" "[]"]
  by (simp add: encode_def packet_bytes_def)

lemma length_encode: "length (encode p) = 48"
  by (simp add: encode_def length_packet_bytes)

text \<open>
  Claim C3. The codec round-trips: decoding the 48 bytes that encode a packet gives the
  packet back, for every packet value. (Every value of the record is a valid packet: the
  widths of the members are those of the struct.)
\<close>

theorem codec_round_trip: "decode (encode p) = Inr p"
  by (simp add: decode_def length_encode encode_header encode_reference_id
      encode_root_delay encode_root_dispersion encode_reference_time encode_originate_time
      encode_receive_time encode_transmit_time header_mode header_version header_leap)

lemma bytes_at_append:
  "length pre = off \<Longrightarrow> length x = n \<Longrightarrow> bytes_at off n (pre @ x @ post) = x"
  by (simp add: bytes_at_def)

lemmas layout_defs = ntp_packet_layout_def ntp_time32_layout_def ntp_time64_layout_def

text \<open>
  Claim C1. The packet has a fixed size of 48 bytes: the members of the struct take
  \<open>8 * 48\<close> bits, so its size is 48, and the bytes of every packet value are 48 in
  number, in either byte order.
\<close>

theorem ntp_packet_size:
  "layout_bits ntp_packet_layout = 8 * 48 \<and>
   sizeof ntp_packet_layout = 48 \<and>
   length (packet_bytes bo p) = 48"
  by (simp add: sizeof_def layout_defs length_packet_bytes)

lemma header_unpack:
  "ucast (header_byte p) = client_mode p"
  "ucast (drop_bit 3 (header_byte p)) = version_number p"
  "ucast (drop_bit 6 (header_byte p)) = leap_indicator p"
  by (rule header_mode header_version header_leap)+

lemma packet_offsets:
  "map (offsetof ntp_packet_layout)
     [''client_mode'', ''version_number'', ''leap_indicator'', ''stratum'', ''poll'',
      ''precision'', ''root_delay'', ''root_dispersion'', ''reference_id'',
      ''reference_time'', ''originate_time'', ''receive_time'', ''transmit_time'']
   = map Some [0, 0, 0, 1, 2, 3, 4, 8, 12, 16, 24, 32, 40]"
  by (simp add: offsetof_def layout_defs)

lemma packet_order:
  "map fst ntp_packet_layout =
     [''client_mode'', ''version_number'', ''leap_indicator'', ''stratum'', ''poll'',
      ''precision'', ''root_delay'', ''root_dispersion'', ''reference_id'',
      ''reference_time'', ''originate_time'', ''receive_time'', ''transmit_time'']"
  by (simp add: layout_defs)

lemma packet_bytes_small:
  "bytes_at 0 1 (packet_bytes bo p) = [header_byte p]"
  "bytes_at 1 1 (packet_bytes bo p) = [stratum p]"
  "bytes_at 2 1 (packet_bytes bo p) = [poll p]"
  "bytes_at 3 1 (packet_bytes bo p) = [precision p]"
  by (simp_all add: bytes_at_def packet_bytes_def)

lemma packet_bytes_root_delay:
  "bytes_at 4 4 (packet_bytes bo p) = time32_bytes bo (root_delay p)"
  using bytes_at_append
    [of "[header_byte p, stratum p, poll p, precision p]" 4 "time32_bytes bo (root_delay p)" 4
        "time32_bytes bo (root_dispersion p) @ reference_id_bytes (reference_id p)
           @ time64_bytes bo (reference_time p) @ time64_bytes bo (originate_time p)
           @ time64_bytes bo (receive_time p) @ time64_bytes bo (transmit_time p)"]
  by (simp add: packet_bytes_def)

lemma packet_bytes_root_dispersion:
  "bytes_at 8 4 (packet_bytes bo p) = time32_bytes bo (root_dispersion p)"
  using bytes_at_append
    [of "[header_byte p, stratum p, poll p, precision p] @ time32_bytes bo (root_delay p)"
        8 "time32_bytes bo (root_dispersion p)" 4
        "reference_id_bytes (reference_id p)
           @ time64_bytes bo (reference_time p) @ time64_bytes bo (originate_time p)
           @ time64_bytes bo (receive_time p) @ time64_bytes bo (transmit_time p)"]
  by (simp add: packet_bytes_def)

lemma packet_bytes_reference_id:
  "bytes_at 12 4 (packet_bytes bo p) = reference_id_bytes (reference_id p)"
  using bytes_at_append
    [of "[header_byte p, stratum p, poll p, precision p] @ time32_bytes bo (root_delay p)
           @ time32_bytes bo (root_dispersion p)"
        12 "reference_id_bytes (reference_id p)" 4
        "time64_bytes bo (reference_time p) @ time64_bytes bo (originate_time p)
           @ time64_bytes bo (receive_time p) @ time64_bytes bo (transmit_time p)"]
  by (simp add: packet_bytes_def)

lemma packet_bytes_reference_time:
  "bytes_at 16 8 (packet_bytes bo p) = time64_bytes bo (reference_time p)"
  using bytes_at_append
    [of "[header_byte p, stratum p, poll p, precision p] @ time32_bytes bo (root_delay p)
           @ time32_bytes bo (root_dispersion p) @ reference_id_bytes (reference_id p)"
        16 "time64_bytes bo (reference_time p)" 8
        "time64_bytes bo (originate_time p)
           @ time64_bytes bo (receive_time p) @ time64_bytes bo (transmit_time p)"]
  by (simp add: packet_bytes_def)

lemma packet_bytes_originate_time:
  "bytes_at 24 8 (packet_bytes bo p) = time64_bytes bo (originate_time p)"
  using bytes_at_append
    [of "[header_byte p, stratum p, poll p, precision p] @ time32_bytes bo (root_delay p)
           @ time32_bytes bo (root_dispersion p) @ reference_id_bytes (reference_id p)
           @ time64_bytes bo (reference_time p)"
        24 "time64_bytes bo (originate_time p)" 8
        "time64_bytes bo (receive_time p) @ time64_bytes bo (transmit_time p)"]
  by (simp add: packet_bytes_def)

lemma packet_bytes_receive_time:
  "bytes_at 32 8 (packet_bytes bo p) = time64_bytes bo (receive_time p)"
  using bytes_at_append
    [of "[header_byte p, stratum p, poll p, precision p] @ time32_bytes bo (root_delay p)
           @ time32_bytes bo (root_dispersion p) @ reference_id_bytes (reference_id p)
           @ time64_bytes bo (reference_time p) @ time64_bytes bo (originate_time p)"
        32 "time64_bytes bo (receive_time p)" 8
        "time64_bytes bo (transmit_time p)"]
  by (simp add: packet_bytes_def)

lemma packet_bytes_transmit_time:
  "bytes_at 40 8 (packet_bytes bo p) = time64_bytes bo (transmit_time p)"
  using bytes_at_append
    [of "[header_byte p, stratum p, poll p, precision p] @ time32_bytes bo (root_delay p)
           @ time32_bytes bo (root_dispersion p) @ reference_id_bytes (reference_id p)
           @ time64_bytes bo (reference_time p) @ time64_bytes bo (originate_time p)
           @ time64_bytes bo (receive_time p)"
        40 "time64_bytes bo (transmit_time p)" 8 "[]"]
  by (simp add: packet_bytes_def)

text \<open>
  Claim C5. The members of the packet are laid out in the order of the declaration, at
  these byte offsets: the three bit-fields (mode, version, leap indicator) share the
  byte at offset 0, stratum is at 1, poll at 2, precision at 3, root delay at 4, root
  dispersion at 8, reference id at 12, and the reference, originate, receive and
  transmit timestamps at 16, 24, 32 and 40. The bytes of a packet value at each offset
  are those of the member, and the header byte gives back its three bit-fields.
\<close>

theorem ntp_packet_field_offsets:
  "map fst ntp_packet_layout =
     [''client_mode'', ''version_number'', ''leap_indicator'', ''stratum'', ''poll'',
      ''precision'', ''root_delay'', ''root_dispersion'', ''reference_id'',
      ''reference_time'', ''originate_time'', ''receive_time'', ''transmit_time''] \<and>
   map (offsetof ntp_packet_layout)
     [''client_mode'', ''version_number'', ''leap_indicator'', ''stratum'', ''poll'',
      ''precision'', ''root_delay'', ''root_dispersion'', ''reference_id'',
      ''reference_time'', ''originate_time'', ''receive_time'', ''transmit_time'']
     = map Some [0, 0, 0, 1, 2, 3, 4, 8, 12, 16, 24, 32, 40] \<and>
   bytes_at 0 1 (packet_bytes bo p) = [header_byte p] \<and>
   ucast (header_byte p) = client_mode p \<and>
   ucast (drop_bit 3 (header_byte p)) = version_number p \<and>
   ucast (drop_bit 6 (header_byte p)) = leap_indicator p \<and>
   bytes_at 1 1 (packet_bytes bo p) = [stratum p] \<and>
   bytes_at 2 1 (packet_bytes bo p) = [poll p] \<and>
   bytes_at 3 1 (packet_bytes bo p) = [precision p] \<and>
   bytes_at 4 4 (packet_bytes bo p) = time32_bytes bo (root_delay p) \<and>
   bytes_at 8 4 (packet_bytes bo p) = time32_bytes bo (root_dispersion p) \<and>
   bytes_at 12 4 (packet_bytes bo p) = reference_id_bytes (reference_id p) \<and>
   bytes_at 16 8 (packet_bytes bo p) = time64_bytes bo (reference_time p) \<and>
   bytes_at 24 8 (packet_bytes bo p) = time64_bytes bo (originate_time p) \<and>
   bytes_at 32 8 (packet_bytes bo p) = time64_bytes bo (receive_time p) \<and>
   bytes_at 40 8 (packet_bytes bo p) = time64_bytes bo (transmit_time p)"
  unfolding packet_order packet_offsets packet_bytes_small header_unpack
    packet_bytes_root_delay packet_bytes_root_dispersion packet_bytes_reference_id
    packet_bytes_reference_time packet_bytes_originate_time packet_bytes_receive_time
    packet_bytes_transmit_time
  by simp

lemma fraction_seconds_range: "0 \<le> fraction_seconds t \<and> fraction_seconds t < 1"
proof -
  have "unat (fraction t) < 2 ^ 32"
    using unsigned_less [of "fraction t", where 'a = nat] by simp
  then have "(of_nat (unat (fraction t)) :: rat) < of_nat (2 ^ 32)"
    by (simp only: of_nat_less_iff)
  then have "(of_nat (unat (fraction t)) :: rat) < 2 ^ 32"
    by (simp del: of_nat_unat)
  moreover have "0 \<le> (of_nat (unat (fraction t)) :: rat)"
    by (rule of_nat_0_le_iff)
  ultimately show ?thesis
    by (simp add: fraction_seconds_def del: of_nat_unat)
qed

text \<open>
  Claim C6. A full timestamp is 64 bits: 32 bits of unsigned whole seconds and 32 bits
  of unsigned fraction, 8 bytes in all. The fraction counts units of \<open>2^-32\<close> seconds,
  so the part of a second it denotes lies in \<open>[0, 1)\<close>, and the timestamp denotes the
  whole seconds plus that part.
\<close>

theorem ntp_time64_fixed_point:
  "layout_bits ntp_time64_layout = 64 \<and>
   length (time64_bytes bo t) = 8 \<and>
   unat (whole t) < 2 ^ 32 \<and>
   unat (fraction t) < 2 ^ 32 \<and>
   fraction_seconds t * 2 ^ 32 = of_nat (unat (fraction t)) \<and>
   0 \<le> fraction_seconds t \<and> fraction_seconds t < 1 \<and>
   seconds t = of_nat (unat (whole t)) + fraction_seconds t"
proof -
  have "unat (whole t) < 2 ^ 32" "unat (fraction t) < 2 ^ 32"
    using unsigned_less [of "whole t", where 'a = nat]
      unsigned_less [of "fraction t", where 'a = nat] by simp_all
  then show ?thesis
    using fraction_seconds_range [of t]
    by (simp add: layout_defs seconds_def fraction_seconds_def del: of_nat_unat)
qed

section \<open>Properties of the synchronisation engine\<close>

lemma decode_short: "length bs \<noteq> 48 \<Longrightarrow> decode bs = Inl DecodeError"
  by (simp add: decode_def)

lemma decodeResponse_error: "decodeResponse permit bs = Inl e \<Longrightarrow> e = DecodeError"
  by (auto simp: decodeResponse_def decode_def split: if_splits sum.splits)

text \<open>
  Claim C7, with the exemption the specification gives to a zero stratum.
  \<open>decodeResponse\<close> answers \<open>DecodeError\<close> for a datagram whose length is not 48,
  whose leap indicator is the alarm value, whose stratum is zero when a zero stratum has
  not been explicitly permitted, or whose mode is not the server's. The exchange then
  ends with that error: the estimator, whose only error is \<open>ClockAnomaly\<close>, is not
  given the datagram.
\<close>

theorem decodeResponse_rejects:
  assumes "length bs \<noteq> 48 \<or>
           (\<exists>p. decode bs = Inr p \<and>
                (leap_indicator p = leap_alarm \<or>
                 (stratum p = 0 \<and> \<not> permit) \<or>
                 client_mode p \<noteq> mode_server))"
  shows "decodeResponse permit bs = Inl DecodeError \<and>
         exchange permit t1 t4 bs = Inl DecodeError"
proof -
  have "decodeResponse permit bs = Inl DecodeError"
    using assms by (auto simp: decodeResponse_def decode_short)
  then show ?thesis
    by (simp add: exchange_def)
qed

lemma decode_header_only:
  "decode (h # s # replicate 46 0) =
     Inr \<lparr>client_mode = ucast h, version_number = ucast (drop_bit 3 h),
          leap_indicator = ucast (drop_bit 6 h), stratum = s, poll = 0, precision = 0,
          root_delay = \<lparr>ntp_time32_t.whole = 0, fraction = 0\<rparr>,
          root_dispersion = \<lparr>ntp_time32_t.whole = 0, fraction = 0\<rparr>,
          reference_id = (0, 0, 0, 0),
          reference_time = \<lparr>whole = 0, fraction = 0\<rparr>,
          originate_time = \<lparr>whole = 0, fraction = 0\<rparr>,
          receive_time = \<lparr>whole = 0, fraction = 0\<rparr>,
          transmit_time = \<lparr>whole = 0, fraction = 0\<rparr>\<rparr>"
  by (simp add: decode_def time32_at_def time64_at_def u16_at_def u32_at_def)

theorem decodeResponse_rejects_witness:
  "decodeResponse False [0x24, 2, 0] = Inl DecodeError \<and>
   exchange False 0 1 [0x24, 2, 0] = Inl DecodeError \<and>
   decodeResponse False (0xE4 # 2 # replicate 46 0) = Inl DecodeError \<and>
   exchange False 0 1 (0xE4 # 2 # replicate 46 0) = Inl DecodeError \<and>
   decodeResponse False (0x24 # 0 # replicate 46 0) = Inl DecodeError \<and>
   exchange False 0 1 (0x24 # 0 # replicate 46 0) = Inl DecodeError \<and>
   decodeResponse False (0x23 # 2 # replicate 46 0) = Inl DecodeError \<and>
   exchange False 0 1 (0x23 # 2 # replicate 46 0) = Inl DecodeError"
proof -
  have a: "decodeResponse False [0x24, 2, 0] = Inl DecodeError \<and>
           exchange False 0 1 [0x24, 2, 0] = Inl DecodeError"
    using decodeResponse_rejects [of "[0x24, 2, 0]" False 0 1] by simp
  have b: "decodeResponse False (0xE4 # 2 # replicate 46 0) = Inl DecodeError \<and>
           exchange False 0 1 (0xE4 # 2 # replicate 46 0) = Inl DecodeError"
    using decodeResponse_rejects [of "0xE4 # 2 # replicate 46 0" False 0 1]
    by (simp add: decode_header_only leap_alarm_def)
  have c: "decodeResponse False (0x24 # 0 # replicate 46 0) = Inl DecodeError \<and>
           exchange False 0 1 (0x24 # 0 # replicate 46 0) = Inl DecodeError"
    using decodeResponse_rejects [of "0x24 # 0 # replicate 46 0" False 0 1]
    by (simp add: decode_header_only)
  have d: "decodeResponse False (0x23 # 2 # replicate 46 0) = Inl DecodeError \<and>
           exchange False 0 1 (0x23 # 2 # replicate 46 0) = Inl DecodeError"
    using decodeResponse_rejects [of "0x23 # 2 # replicate 46 0" False 0 1]
    by (simp add: decode_header_only mode_server_def)
  from a b c d show ?thesis by simp
qed

text \<open>
  Where a zero stratum has been explicitly permitted, a datagram of 48 bytes with
  stratum zero, leap indicator 0 and server mode is accepted and goes on to the
  estimator.
\<close>

theorem decodeResponse_zero_stratum_counterexample:
  "stratum \<lparr>client_mode = 4, version_number = 4, leap_indicator = 0, stratum = 0, poll = 0,
            precision = 0,
            root_delay = \<lparr>ntp_time32_t.whole = 0, fraction = 0\<rparr>,
            root_dispersion = \<lparr>ntp_time32_t.whole = 0, fraction = 0\<rparr>,
            reference_id = (0, 0, 0, 0),
            reference_time = \<lparr>whole = 0, fraction = 0\<rparr>,
            originate_time = \<lparr>whole = 0, fraction = 0\<rparr>,
            receive_time = \<lparr>whole = 0, fraction = 0\<rparr>,
            transmit_time = \<lparr>whole = 0, fraction = 0\<rparr>\<rparr> = 0 \<and>
   decodeResponse True (0x24 # 0 # replicate 46 0) =
     Inr \<lparr>client_mode = 4, version_number = 4, leap_indicator = 0, stratum = 0, poll = 0,
          precision = 0,
          root_delay = \<lparr>ntp_time32_t.whole = 0, fraction = 0\<rparr>,
          root_dispersion = \<lparr>ntp_time32_t.whole = 0, fraction = 0\<rparr>,
          reference_id = (0, 0, 0, 0),
          reference_time = \<lparr>whole = 0, fraction = 0\<rparr>,
          originate_time = \<lparr>whole = 0, fraction = 0\<rparr>,
          receive_time = \<lparr>whole = 0, fraction = 0\<rparr>,
          transmit_time = \<lparr>whole = 0, fraction = 0\<rparr>\<rparr> \<and>
   exchange True 0 1 (0x24 # 0 # replicate 46 0) = Inr (- (1 / 2), 1)"
  by (simp add: decodeResponse_def exchange_def decode_header_only leap_alarm_def
      mode_server_def estimate_def offset_def roundTripDelay_def seconds_def
      fraction_seconds_def)

text \<open>
  Claim C4, with the values the equations give. For \<open>t1 = 1000.000\<close>,
  \<open>t2 = 1000.500\<close>, \<open>t3 = 1000.600\<close> and \<open>t4 = 1000.100\<close> the offset is
  \<open>0.500\<close> and the round-trip delay is \<open>(t4 - t1) - (t3 - t2) = 0.100 - 0.100 = 0\<close>;
  the delay is not negative and the sample is accepted.
\<close>

theorem estimator_literal_example:
  "offset 1000 (2001 / 2) (5003 / 5) (10001 / 10) = 1 / 2 \<and>
   roundTripDelay 1000 (2001 / 2) (5003 / 5) (10001 / 10) = 0 \<and>
   estimate 1000 (2001 / 2) (5003 / 5) (10001 / 10) = Inr (1 / 2, 0)"
  by (simp add: offset_def roundTripDelay_def estimate_def)

text \<open>
  For these inputs the round-trip delay is not \<open>-0.400\<close>, it is not negative, and the
  sample is not rejected.
\<close>

theorem estimator_literal_counterexample:
  "roundTripDelay 1000 (2001 / 2) (5003 / 5) (10001 / 10) \<noteq> - (2 / 5) \<and>
   \<not> roundTripDelay 1000 (2001 / 2) (5003 / 5) (10001 / 10) < 0 \<and>
   estimate 1000 (2001 / 2) (5003 / 5) (10001 / 10) \<noteq> Inl ClockAnomaly"
  by (simp add: offset_def roundTripDelay_def estimate_def)

lemma select_insufficient:
  "length (valid_samples cfg ss) < minimum_accept cfg \<Longrightarrow>
   select cfg ss = Inl InsufficientSamples"
  by (simp add: select_def Let_def)

lemma finish_round_failure:
  "state c = Syncing \<Longrightarrow> finish_round w m (Inl e) c = c\<lparr>state := Failed e\<rparr>"
  by (simp add: finish_round_def)

text \<open>
  Claim C8. When fewer valid samples than the minimum-accept count remain, the round
  fails with \<open>InsufficientSamples\<close>: the coordinator is left in \<open>Failed\<close> with that
  reason, its anchor is the one it had, and a time query answers as before the round,
  from the prior anchor where there is one. More generally the failure of a round moves
  a coordinator in \<open>Syncing\<close> to \<open>Failed\<close> and keeps its anchor.
\<close>

theorem insufficient_samples_keep_anchor:
  assumes "length (valid_samples cfg ss) < minimum_accept cfg"
  shows "select cfg ss = Inl InsufficientSamples \<and>
         state (forceSync cfg ss w m c) = Failed InsufficientSamples \<and>
         current_anchor (forceSync cfg ss w m c) = current_anchor c \<and>
         currentTime (forceSync cfg ss w m c) q = currentTime c q \<and>
         (\<forall>a. current_anchor c = Some a \<longrightarrow>
            currentTime (forceSync cfg ss w m c) q =
              Inr (correctedWallTime a + (q - monotonicAtCapture a))) \<and>
         (\<forall>e. state c = Syncing \<longrightarrow>
            state (finish_round w m (Inl e) c) = Failed e \<and>
            current_anchor (finish_round w m (Inl e) c) = current_anchor c)"
  using assms
  by (simp add: select_insufficient forceSync_def start_def finish_round_def currentTime_def
      anchor_now_def)

theorem insufficient_samples_keep_anchor_witness:
  "select \<lparr>dispersion_ceiling = 1, minimum_accept = 2\<rparr>
     [\<lparr>sample_offset = 1 / 4, sample_delay = 1 / 10, dispersion = 1 / 100,
       serverStratum = 2, capturedAtMonotonic = 6\<rparr>] = Inl InsufficientSamples \<and>
   forceSync \<lparr>dispersion_ceiling = 1, minimum_accept = 2\<rparr>
     [\<lparr>sample_offset = 1 / 4, sample_delay = 1 / 10, dispersion = 1 / 100,
       serverStratum = 2, capturedAtMonotonic = 6\<rparr>] 2000 6
     \<lparr>state = Synced,
      current_anchor = Some \<lparr>correctedWallTime = 1000, monotonicAtCapture = 5\<rparr>\<rparr>
   = \<lparr>state = Failed InsufficientSamples,
      current_anchor = Some \<lparr>correctedWallTime = 1000, monotonicAtCapture = 5\<rparr>\<rparr> \<and>
   currentTime
     (forceSync \<lparr>dispersion_ceiling = 1, minimum_accept = 2\<rparr>
       [\<lparr>sample_offset = 1 / 4, sample_delay = 1 / 10, dispersion = 1 / 100,
         serverStratum = 2, capturedAtMonotonic = 6\<rparr>] 2000 6
       \<lparr>state = Synced,
        current_anchor = Some \<lparr>correctedWallTime = 1000, monotonicAtCapture = 5\<rparr>\<rparr>) 7
   = Inr 1002"
proof -
  have short: "length (valid_samples \<lparr>dispersion_ceiling = 1, minimum_accept = 2\<rparr>
     [\<lparr>sample_offset = 1 / 4, sample_delay = 1 / 10, dispersion = 1 / 100,
       serverStratum = 2, capturedAtMonotonic = 6\<rparr>])
     < minimum_accept \<lparr>dispersion_ceiling = 1, minimum_accept = 2\<rparr>"
    by (simp add: valid_samples_def)
  note r = insufficient_samples_keep_anchor [OF short, of 2000 6
      "\<lparr>state = Synced,
        current_anchor = Some \<lparr>correctedWallTime = 1000, monotonicAtCapture = 5\<rparr>\<rparr>" 7]
  have eq: "\<And>c c' :: coordinator.
      state c = state c' \<Longrightarrow> current_anchor c = current_anchor c' \<Longrightarrow> c = c'"
    by simp
  from r show ?thesis
    by (auto intro!: eq simp: currentTime_def anchor_now_def)
qed

section \<open>Further properties of the engine\<close>

text \<open>
  The examples of the specification for the selection: among strata 2, 1, 1 with
  dispersions 0.01, 0.05, 0.02 the sample of stratum 1 and dispersion 0.02 wins, and two
  good samples are enough for a minimum-accept count of 2.
\<close>

lemma select_tie_break_example:
  "select \<lparr>dispersion_ceiling = 1, minimum_accept = 2\<rparr>
     [\<lparr>sample_offset = 0, sample_delay = 1 / 10, dispersion = 1 / 100,
       serverStratum = 2, capturedAtMonotonic = 0\<rparr>,
      \<lparr>sample_offset = 0, sample_delay = 1 / 10, dispersion = 5 / 100,
       serverStratum = 1, capturedAtMonotonic = 0\<rparr>,
      \<lparr>sample_offset = 0, sample_delay = 1 / 10, dispersion = 2 / 100,
       serverStratum = 1, capturedAtMonotonic = 0\<rparr>]
   = Inr \<lparr>sample_offset = 0, sample_delay = 1 / 10, dispersion = 2 / 100,
          serverStratum = 1, capturedAtMonotonic = 0\<rparr>"
  by (simp add: select_def valid_samples_def better_def preferred_def)

lemma select_partial_failure_example:
  "select \<lparr>dispersion_ceiling = 1, minimum_accept = 2\<rparr>
     [\<lparr>sample_offset = 0, sample_delay = 1 / 10, dispersion = 1 / 100,
       serverStratum = 2, capturedAtMonotonic = 0\<rparr>,
      \<lparr>sample_offset = 0, sample_delay = 1 / 10, dispersion = 5 / 100,
       serverStratum = 2, capturedAtMonotonic = 0\<rparr>]
   = Inr \<lparr>sample_offset = 0, sample_delay = 1 / 10, dispersion = 1 / 100,
          serverStratum = 2, capturedAtMonotonic = 0\<rparr>"
  by (simp add: select_def valid_samples_def better_def preferred_def)

text \<open>
  Between two captures the answers of the anchor follow the monotonic source; without
  an anchor a query fails; a winning sample replaces the anchor; and a response that
  passes the validation rules is decoded to itself.
\<close>

lemma anchor_now_monotonic:
  "m1 \<le> m2 \<Longrightarrow> anchor_now (Some a) m1 = Inr x \<Longrightarrow> anchor_now (Some a) m2 = Inr y \<Longrightarrow> x \<le> y"
  by (auto simp: anchor_now_def)

lemma currentTime_initial: "currentTime initial m = Inl NoAnchor"
  by (simp add: currentTime_def initial_def anchor_now_def)

lemma forceSync_success:
  "select cfg ss = Inr s \<Longrightarrow>
   forceSync cfg ss w m c =
     \<lparr>state = Synced, current_anchor = Some (capture (w + sample_offset s) m)\<rparr>"
  by (simp add: forceSync_def finish_round_def start_def)

lemma decodeResponse_accepts:
  "leap_indicator p \<noteq> leap_alarm \<Longrightarrow> (stratum p \<noteq> 0 \<or> permit) \<Longrightarrow>
   client_mode p = mode_server \<Longrightarrow> decodeResponse permit (encode p) = Inr p"
  using length_encode [of p]
  by (auto simp: decodeResponse_def decode_def encode_header encode_reference_id
      encode_root_delay encode_root_dispersion encode_reference_time encode_originate_time
      encode_receive_time encode_transmit_time header_mode header_version header_leap)

end
